theory Spec2Isabelle
  imports Complex_Main
begin

section \<open>The rectangular element of Dia: \<open>lib/element.c\<close>\<close>

text \<open>
  The C type \<open>real\<close> (a \<open>double\<close>) is modelled by the mathematical reals: the
  arithmetic below is exact, and rounding, infinities and NaN are outside the model.
  An \<open>Element *\<close> argument that a function mutates in place becomes an \<open>Element\<close>
  value that the function takes and returns.
\<close>

subsection \<open>Data model\<close>

text \<open>\<open>Point\<close>: a struct of two reals.\<close>

record Point =
  x :: real
  y :: real

text \<open>
  \<open>HandleId\<close>: the enumeration, with the constructors that the two \<open>switch\<close>
  statements of \<open>element.c\<close> name, in the order of their \<open>case\<close> labels.
\<close>

datatype HandleId =
    HANDLE_RESIZE_NW
  | HANDLE_RESIZE_N
  | HANDLE_RESIZE_NE
  | HANDLE_RESIZE_W
  | HANDLE_RESIZE_E
  | HANDLE_RESIZE_SW
  | HANDLE_RESIZE_S
  | HANDLE_RESIZE_SE
  | HANDLE_MOVE_STARTPOINT
  | HANDLE_MOVE_ENDPOINT
  | HANDLE_CUSTOM1
  | HANDLE_CUSTOM2
  | HANDLE_CUSTOM3
  | HANDLE_CUSTOM4
  | HANDLE_CUSTOM5
  | HANDLE_CUSTOM6
  | HANDLE_CUSTOM7
  | HANDLE_CUSTOM8
  | HANDLE_CUSTOM9

text \<open>
  Modelled from the spec: the declaration of the enumeration \<open>HandleId\<close> (a header,
  not under src/), of which only the order of the enumerators matters here, for the
  guards \<open>id >= HANDLE_RESIZE_NW\<close> and \<open>id <= HANDLE_RESIZE_SE\<close>. The spec names the
  eight resize ids as the range \<open>RESIZE_NW..RESIZE_SE\<close> and says that the other
  identities (endpoints, customs) are rejected; the enumerators are numbered in the
  order of the \<open>case\<close> labels of \<open>element_move_handle\<close>.
\<close>

fun HandleId_val :: "HandleId \<Rightarrow> int" where
  "HandleId_val HANDLE_RESIZE_NW = 0"
| "HandleId_val HANDLE_RESIZE_N = 1"
| "HandleId_val HANDLE_RESIZE_NE = 2"
| "HandleId_val HANDLE_RESIZE_W = 3"
| "HandleId_val HANDLE_RESIZE_E = 4"
| "HandleId_val HANDLE_RESIZE_SW = 5"
| "HandleId_val HANDLE_RESIZE_S = 6"
| "HandleId_val HANDLE_RESIZE_SE = 7"
| "HandleId_val HANDLE_MOVE_STARTPOINT = 8"
| "HandleId_val HANDLE_MOVE_ENDPOINT = 9"
| "HandleId_val HANDLE_CUSTOM1 = 10"
| "HandleId_val HANDLE_CUSTOM2 = 11"
| "HandleId_val HANDLE_CUSTOM3 = 12"
| "HandleId_val HANDLE_CUSTOM4 = 13"
| "HandleId_val HANDLE_CUSTOM5 = 14"
| "HandleId_val HANDLE_CUSTOM6 = 15"
| "HandleId_val HANDLE_CUSTOM7 = 16"
| "HandleId_val HANDLE_CUSTOM8 = 17"
| "HandleId_val HANDLE_CUSTOM9 = 18"

text \<open>
  \<open>Handle\<close>: of the fields \<open>id\<close>, \<open>type\<close>, \<open>pos\<close>, \<open>connect_type\<close> and
  \<open>connected_to\<close>, the two that \<open>element_update_handles\<close> writes. The field \<open>id\<close>
  is \<open>id'\<close> here (\<open>id\<close> is the identity function of HOL).
\<close>

record Handle =
  id' :: HandleId
  pos :: Point

text \<open>
  \<open>DiaObject\<close>, the base object embedded in an element: the fields that
  \<open>element.c\<close> reads or writes directly.
\<close>

record DiaObject =
  position :: Point
  num_handles :: int
  num_connections :: int

text \<open>
  \<open>Element\<close>: the base object, the array \<open>resize_handles[8]\<close> (a list, of
  length 8 in every well-formed element), and the pose \<open>corner\<close>, \<open>width\<close>,
  \<open>height\<close>. The field \<open>extra_spacing\<close>, which only the bounding box reads, is left
  out.
\<close>

record Element =
  object :: DiaObject
  resize_handles :: "Handle list"
  corner :: Point
  width :: real
  height :: real

text \<open>
  Modelled from the spec: \<open>point_sub\<close>, an inline function of the geometry header
  (not under src/); the spec gives \<open>p = to \<minus> corner\<close>, componentwise.
\<close>

definition point_sub :: "Point \<Rightarrow> Point \<Rightarrow> Point" where
  "point_sub p1 p2 = \<lparr>x = x p1 - x p2, y = y p1 - y p2\<rparr>"

subsection \<open>\<open>element_move_handle\<close>: the free resize\<close>

text \<open>
  The four guarded blocks that the cases of the \<open>switch\<close> are made of. Each reads the
  target \<open>to\<close>, the offset \<open>p\<close> computed before the \<open>switch\<close>, and the element as
  the blocks before it have left it (\<open>corner\<close> is a pointer into the element).

  \<^item> \<open>if (to->x < corner->x + elem->width) { corner->x += p.x; elem->width -= p.x; }\<close>
  \<^item> \<open>if (to->y < corner->y + elem->height) { corner->y += p.y; elem->height -= p.y; }\<close>
  \<^item> \<open>if (p.x > 0.0) elem->width = p.x;\<close>
  \<^item> \<open>if (p.y > 0.0) elem->height = p.y;\<close>
\<close>

definition move_left_side :: "Point \<Rightarrow> Point \<Rightarrow> Element \<Rightarrow> Element" where
  "move_left_side to p elem =
     (if x to < x (Element.corner elem) + Element.width elem
      then elem\<lparr>Element.corner := (Element.corner elem)\<lparr>x := x (Element.corner elem) + x p\<rparr>,
                Element.width := Element.width elem - x p\<rparr>
      else elem)"

definition move_top_side :: "Point \<Rightarrow> Point \<Rightarrow> Element \<Rightarrow> Element" where
  "move_top_side to p elem =
     (if y to < y (Element.corner elem) + Element.height elem
      then elem\<lparr>Element.corner := (Element.corner elem)\<lparr>y := y (Element.corner elem) + y p\<rparr>,
                Element.height := Element.height elem - y p\<rparr>
      else elem)"

definition set_width_from :: "Point \<Rightarrow> Element \<Rightarrow> Element" where
  "set_width_from p elem = (if x p > 0 then elem\<lparr>Element.width := x p\<rparr> else elem)"

definition set_height_from :: "Point \<Rightarrow> Element \<Rightarrow> Element" where
  "set_height_from p elem = (if y p > 0 then elem\<lparr>Element.height := y p\<rparr> else elem)"

text \<open>
  The function returns \<open>NULL\<close> on every path; the model returns the element as the
  call leaves it. The two \<open>g_return_val_if_fail\<close> guards return before anything is
  written; the ids after \<open>HANDLE_RESIZE_SE\<close> would reach the \<open>default\<close> label, which
  only warns. The arguments \<open>cp\<close>, \<open>reason\<close> and \<open>modifiers\<close> are never read.
\<close>

definition element_move_handle :: "Element \<Rightarrow> HandleId \<Rightarrow> Point \<Rightarrow> Element" where
  "element_move_handle elem hid to =
     (if \<not> HandleId_val hid \<ge> HandleId_val HANDLE_RESIZE_NW then elem
      else if \<not> HandleId_val hid \<le> HandleId_val HANDLE_RESIZE_SE then elem
      else
        let p = point_sub to (Element.corner elem) in
        (case hid of
           HANDLE_RESIZE_NW \<Rightarrow> move_top_side to p (move_left_side to p elem)
         | HANDLE_RESIZE_N \<Rightarrow> move_top_side to p elem
         | HANDLE_RESIZE_NE \<Rightarrow> move_top_side to p (set_width_from p elem)
         | HANDLE_RESIZE_W \<Rightarrow> move_left_side to p elem
         | HANDLE_RESIZE_E \<Rightarrow> set_width_from p elem
         | HANDLE_RESIZE_SW \<Rightarrow> set_height_from p (move_left_side to p elem)
         | HANDLE_RESIZE_S \<Rightarrow> set_height_from p elem
         | HANDLE_RESIZE_SE \<Rightarrow> set_height_from p (set_width_from p elem)
         | _ \<Rightarrow> elem))"

subsection \<open>\<open>element_move_handle_aspect\<close>: the resize at a fixed aspect ratio\<close>

text \<open>
  The \<open>switch\<close>: the candidate \<open>(new_width, new_height)\<close> and the factors
  \<open>(move_x, move_y)\<close> of each handle. \<open>new_width\<close> and \<open>new_height\<close> are set to
  \<open>0.0\<close> and \<open>move_x\<close>, \<open>move_y\<close> to \<open>0\<close> before the \<open>switch\<close>, so a case that
  does not assign one of them leaves that value. \<open>w\<close> and \<open>h\<close> are the locals
  \<open>width\<close> and \<open>height\<close>, the size of the element on entry.
\<close>

definition aspect_switch :: "HandleId \<Rightarrow> real \<Rightarrow> real \<Rightarrow> Point \<Rightarrow> real \<times> real \<times> real \<times> real" where
  "aspect_switch hid w h p =
     (case hid of
        HANDLE_RESIZE_NW \<Rightarrow> (w - x p, h - y p, 1, 1)
      | HANDLE_RESIZE_N \<Rightarrow> (0, h - y p, 1 / 2, 1)
      | HANDLE_RESIZE_NE \<Rightarrow> (x p, h - y p, 0, 1)
      | HANDLE_RESIZE_W \<Rightarrow> (w - x p, 0, 1, 1 / 2)
      | HANDLE_RESIZE_E \<Rightarrow> (x p, 0, 0, 1 / 2)
      | HANDLE_RESIZE_SW \<Rightarrow> (w - x p, y p, 1, 0)
      | HANDLE_RESIZE_S \<Rightarrow> (0, y p, 1 / 2, 0)
      | HANDLE_RESIZE_SE \<Rightarrow> (x p, y p, 0, 0)
      | _ \<Rightarrow> (0, 0, 0, 0))"

text \<open>
  \<open>if (new_width > new_height*aspect_ratio) new_height = new_width/aspect_ratio;
  else new_width = new_height*aspect_ratio;\<close>
\<close>

definition aspect_conform :: "real \<Rightarrow> real \<times> real \<Rightarrow> real \<times> real" where
  "aspect_conform aspect_ratio nwh =
     (case nwh of (new_width, new_height) \<Rightarrow>
        if new_width > new_height * aspect_ratio
        then (new_width, new_width / aspect_ratio)
        else (new_height * aspect_ratio, new_height))"

text \<open>
  \<open>if ((new_width<0.0) || (new_height<0.0)) { new_width = 0.0; new_height = 0.0; }\<close>
\<close>

definition aspect_clamp :: "real \<times> real \<Rightarrow> real \<times> real" where
  "aspect_clamp nwh =
     (case nwh of (new_width, new_height) \<Rightarrow>
        if new_width < 0 \<or> new_height < 0 then (0, 0) else (new_width, new_height))"

text \<open>
  The whole function. The source requires \<open>aspect_ratio\<close> not to be 0 and does not
  check it; in the model a division by 0 yields 0, so the model says nothing about the
  code at \<open>aspect_ratio = 0\<close>.
\<close>

definition element_move_handle_aspect :: "Element \<Rightarrow> HandleId \<Rightarrow> Point \<Rightarrow> real \<Rightarrow> Element" where
  "element_move_handle_aspect elem hid to aspect_ratio =
     (if \<not> HandleId_val hid \<ge> HandleId_val HANDLE_RESIZE_NW then elem
      else if \<not> HandleId_val hid \<le> HandleId_val HANDLE_RESIZE_SE then elem
      else
        let p = point_sub to (Element.corner elem);
            w = Element.width elem;
            h = Element.height elem
        in (case aspect_switch hid w h p of (nw0, nh0, move_x, move_y) \<Rightarrow>
             (case aspect_clamp (aspect_conform aspect_ratio (nw0, nh0)) of
                (new_width, new_height) \<Rightarrow>
                  elem\<lparr>Element.corner :=
                         \<lparr>x = x (Element.corner elem) - (new_width - w) * move_x,
                          y = y (Element.corner elem) - (new_height - h) * move_y\<rparr>,
                       Element.width := new_width,
                       Element.height := new_height\<rparr>)))"

text \<open>
  The rules of the spec for the same operation, written from its table and its four
  steps, to compare with the code: the candidate of each handle, a dash of the table
  being an unset axis; the anchor fractions; and the steps.
\<close>

fun spec_candidate :: "HandleId \<Rightarrow> real \<Rightarrow> real \<Rightarrow> Point \<Rightarrow> real option \<times> real option" where
  "spec_candidate HANDLE_RESIZE_NW w h p = (Some (w - x p), Some (h - y p))"
| "spec_candidate HANDLE_RESIZE_N w h p = (None, Some (h - y p))"
| "spec_candidate HANDLE_RESIZE_NE w h p = (Some (x p), Some (h - y p))"
| "spec_candidate HANDLE_RESIZE_W w h p = (Some (w - x p), None)"
| "spec_candidate HANDLE_RESIZE_E w h p = (Some (x p), None)"
| "spec_candidate HANDLE_RESIZE_SW w h p = (Some (w - x p), Some (y p))"
| "spec_candidate HANDLE_RESIZE_S w h p = (None, Some (y p))"
| "spec_candidate HANDLE_RESIZE_SE w h p = (Some (x p), Some (y p))"
| "spec_candidate _ w h p = (None, None)"

fun spec_anchor :: "HandleId \<Rightarrow> real \<times> real" where
  "spec_anchor HANDLE_RESIZE_NW = (1, 1)"
| "spec_anchor HANDLE_RESIZE_N = (1 / 2, 1)"
| "spec_anchor HANDLE_RESIZE_NE = (0, 1)"
| "spec_anchor HANDLE_RESIZE_W = (1, 1 / 2)"
| "spec_anchor HANDLE_RESIZE_E = (0, 1 / 2)"
| "spec_anchor HANDLE_RESIZE_SW = (1, 0)"
| "spec_anchor HANDLE_RESIZE_S = (1 / 2, 0)"
| "spec_anchor HANDLE_RESIZE_SE = (0, 0)"
| "spec_anchor _ = (0, 0)"

definition unset_as_zero :: "real option \<Rightarrow> real" where
  "unset_as_zero v = (case v of None \<Rightarrow> 0 | Some r \<Rightarrow> r)"

definition spec_move_handle_aspect :: "Element \<Rightarrow> HandleId \<Rightarrow> Point \<Rightarrow> real \<Rightarrow> Element" where
  "spec_move_handle_aspect elem hid to aspect =
     (let p = \<lparr>x = x to - x (Element.corner elem), y = y to - y (Element.corner elem)\<rparr>;
          w = Element.width elem;
          h = Element.height elem;
          new_w0 = unset_as_zero (fst (spec_candidate hid w h p));
          new_h0 = unset_as_zero (snd (spec_candidate hid w h p));
          new_w1 = (if new_w0 > new_h0 * aspect then new_w0 else new_h0 * aspect);
          new_h1 = (if new_w0 > new_h0 * aspect then new_w0 / aspect else new_h0);
          new_w = (if new_w1 < 0 \<or> new_h1 < 0 then 0 else new_w1);
          new_h = (if new_w1 < 0 \<or> new_h1 < 0 then 0 else new_h1)
      in elem\<lparr>Element.corner :=
                 \<lparr>x = x (Element.corner elem) - (new_w - w) * fst (spec_anchor hid),
                  y = y (Element.corner elem) - (new_h - h) * snd (spec_anchor hid)\<rparr>,
               Element.width := new_w,
               Element.height := new_h\<rparr>)"

subsection \<open>Handles and connection points\<close>

text \<open>
  \<open>element_update_handles\<close> writes the id and the position of each of the eight
  slots of \<open>resize_handles\<close>, and leaves the other fields of the slots. The array is a
  member of the element, so the eight indices are in range in the source; in the model
  that is \<open>length (resize_handles elem) = 8\<close>.
\<close>

definition set_handle :: "nat \<Rightarrow> HandleId \<Rightarrow> real \<Rightarrow> real \<Rightarrow> Handle list \<Rightarrow> Handle list" where
  "set_handle i hid px py hs = hs[i := (hs ! i)\<lparr>id' := hid, Handle.pos := \<lparr>x = px, y = py\<rparr>\<rparr>]"

definition element_update_handles :: "Element \<Rightarrow> Element" where
  "element_update_handles elem =
     (let corner = Element.corner elem;
          hs = resize_handles elem;
          hs = set_handle 0 HANDLE_RESIZE_NW (x corner) (y corner) hs;
          hs = set_handle 1 HANDLE_RESIZE_N (x corner + Element.width elem / 2) (y corner) hs;
          hs = set_handle 2 HANDLE_RESIZE_NE (x corner + Element.width elem) (y corner) hs;
          hs = set_handle 3 HANDLE_RESIZE_W (x corner) (y corner + Element.height elem / 2) hs;
          hs = set_handle 4 HANDLE_RESIZE_E (x corner + Element.width elem)
                 (y corner + Element.height elem / 2) hs;
          hs = set_handle 5 HANDLE_RESIZE_SW (x corner) (y corner + Element.height elem) hs;
          hs = set_handle 6 HANDLE_RESIZE_S (x corner + Element.width elem / 2)
                 (y corner + Element.height elem) hs;
          hs = set_handle 7 HANDLE_RESIZE_SE (x corner + Element.width elem)
                 (y corner + Element.height elem) hs
      in elem\<lparr>resize_handles := hs\<rparr>)"

text \<open>
  Modelled from the spec: the direction constants \<open>DIR_NORTH\<close>, \<open>DIR_EAST\<close>,
  \<open>DIR_SOUTH\<close>, \<open>DIR_WEST\<close>, \<open>DIR_NONE\<close> and \<open>DIR_ALL\<close> (macros of a header, not
  under src/). The spec calls a direction mask a subset of the four cardinals, with
  \<open>ALL\<close> and \<open>NONE\<close> as aliases: a mask is a set of cardinals, \<open>|\<close> is the union.
\<close>

datatype cardinal = North | East | South | West

type_synonym directions = "cardinal set"

definition DIR_NONE :: directions where "DIR_NONE = {}"
definition DIR_NORTH :: directions where "DIR_NORTH = {North}"
definition DIR_EAST :: directions where "DIR_EAST = {East}"
definition DIR_SOUTH :: directions where "DIR_SOUTH = {South}"
definition DIR_WEST :: directions where "DIR_WEST = {West}"
definition DIR_ALL :: directions where "DIR_ALL = DIR_NORTH \<union> DIR_SOUTH \<union> DIR_EAST \<union> DIR_WEST"

text \<open>
  \<open>ConnectionPoint\<close>: the fields that \<open>element.c\<close> reads or writes. \<open>flags\<close> is a
  small unsigned integer, which the code only compares with \<open>CP_FLAGS_MAIN\<close>.
\<close>

record ConnectionPoint =
  pos :: Point
  directions :: directions
  flags :: nat

text \<open>
  The functions below write through the pointer \<open>cps\<close> into an array of the caller;
  the model takes the array as a list and returns the list written. What C leaves
  undefined, a write beyond the array, and the abort of a failed \<open>g_assert\<close>, are
  values of the result.
\<close>

datatype failure = Assertion_failed | Out_of_bounds

definition set_pos :: "nat \<Rightarrow> real \<Rightarrow> real \<Rightarrow> ConnectionPoint list \<Rightarrow> ConnectionPoint list" where
  "set_pos i px py cps = cps[i := (cps ! i)\<lparr>ConnectionPoint.pos := \<lparr>x = px, y = py\<rparr>\<rparr>]"

definition set_directions :: "nat \<Rightarrow> directions \<Rightarrow> ConnectionPoint list \<Rightarrow> ConnectionPoint list" where
  "set_directions i d cps = cps[i := (cps ! i)\<lparr>directions := d\<rparr>]"

text \<open>
  \<open>element_update_connections_rectangle\<close>: the positions of \<open>cps[0..7]\<close>, then the
  assertion \<open>num_connections >= 9\<close>, then the position of \<open>cps[8]\<close> and the nine
  direction masks. \<open>cps[0].pos = elem->corner\<close> copies both coordinates.
\<close>

definition element_update_connections_rectangle ::
  "Element \<Rightarrow> ConnectionPoint list \<Rightarrow> failure + ConnectionPoint list" where
  "element_update_connections_rectangle elem cps =
     (let corner = Element.corner elem in
      if length cps < 8 then Inl Out_of_bounds
      else
        let cps = cps[0 := (cps ! 0)\<lparr>ConnectionPoint.pos := corner\<rparr>];
            cps = set_pos 1 (x corner + Element.width elem / 2) (y corner) cps;
            cps = set_pos 2 (x corner + Element.width elem) (y corner) cps;
            cps = set_pos 3 (x corner) (y corner + Element.height elem / 2) cps;
            cps = set_pos 4 (x corner + Element.width elem) (y corner + Element.height elem / 2) cps;
            cps = set_pos 5 (x corner) (y corner + Element.height elem) cps;
            cps = set_pos 6 (x corner + Element.width elem / 2) (y corner + Element.height elem) cps;
            cps = set_pos 7 (x corner + Element.width elem) (y corner + Element.height elem) cps
        in
        if \<not> num_connections (object elem) \<ge> 9 then Inl Assertion_failed
        else if length cps < 9 then Inl Out_of_bounds
        else
          let cps = set_pos 8 (x corner + Element.width elem / 2)
                      (y corner + Element.height elem / 2) cps;
              cps = set_directions 0 (DIR_NORTH \<union> DIR_WEST) cps;
              cps = set_directions 1 DIR_NORTH cps;
              cps = set_directions 2 (DIR_NORTH \<union> DIR_EAST) cps;
              cps = set_directions 3 DIR_WEST cps;
              cps = set_directions 4 DIR_EAST cps;
              cps = set_directions 5 (DIR_SOUTH \<union> DIR_WEST) cps;
              cps = set_directions 6 DIR_SOUTH cps;
              cps = set_directions 7 (DIR_SOUTH \<union> DIR_EAST) cps;
              cps = set_directions 8 DIR_ALL cps
          in Inr cps)"

text \<open>
  \<open>element_update_connections_directions\<close>. The body of the loop, for the
  connection point \<open>cps[i]\<close>; the first argument is the value of the constant
  \<open>CP_FLAGS_MAIN\<close> (a macro of a header, not under src/), which the theorems leave
  arbitrary.
\<close>

definition update_direction :: "nat \<Rightarrow> Point \<Rightarrow> ConnectionPoint \<Rightarrow> ConnectionPoint" where
  "update_direction CP_FLAGS_MAIN center cp =
     (let d = DIR_NONE;
          d = (if x (ConnectionPoint.pos cp) > x center then d \<union> DIR_EAST
               else if x (ConnectionPoint.pos cp) < x center then d \<union> DIR_WEST
               else d);
          d = (if y (ConnectionPoint.pos cp) > y center then d \<union> DIR_SOUTH
               else if y (ConnectionPoint.pos cp) < y center then d \<union> DIR_NORTH
               else d);
          d = (if flags cp = CP_FLAGS_MAIN then d \<union> DIR_ALL else d)
      in cp\<lparr>directions := d\<rparr>)"

text \<open>
  The loop \<open>for (i = 0; i < elem->object.num_connections; ++i)\<close>, from the index
  \<open>i\<close>; \<open>n\<close> is \<open>num_connections\<close>, a signed integer.
\<close>

function directions_loop ::
  "nat \<Rightarrow> Point \<Rightarrow> int \<Rightarrow> nat \<Rightarrow> ConnectionPoint list \<Rightarrow> failure + ConnectionPoint list" where
  "directions_loop CP_FLAGS_MAIN center n i cps =
     (if int i < n then
        (if i < length cps
         then directions_loop CP_FLAGS_MAIN center n (Suc i)
                (cps[i := update_direction CP_FLAGS_MAIN center (cps ! i)])
         else Inl Out_of_bounds)
      else Inr cps)"
  by pat_completeness auto
termination
  by (relation "measure (\<lambda>(m, c, n, i, cps). nat (n - int i))") auto

definition element_update_connections_directions ::
  "nat \<Rightarrow> Element \<Rightarrow> ConnectionPoint list \<Rightarrow> failure + ConnectionPoint list" where
  "element_update_connections_directions CP_FLAGS_MAIN elem cps =
     (let center = \<lparr>x = x (Element.corner elem) + Element.width elem / 2,
                    y = y (Element.corner elem) + Element.height elem / 2\<rparr>
      in directions_loop CP_FLAGS_MAIN center (num_connections (object elem)) 0 cps)"

subsection \<open>The undo record\<close>

text \<open>
  The record \<open>DiaElementObjectChange\<close> holds a pointer to its element, so the elements
  live in a store, from addresses to elements, and the functions take the store and
  return it. A pointer to the base object of an element is the address of the element
  (the base object is its first member); \<open>None\<close> is \<open>NULL\<close>. The record itself is
  passed and returned as a value; its member \<open>object_change\<close>, the base of the
  record, is left out.
\<close>

type_synonym addr = nat

type_synonym store = "addr \<rightharpoonup> Element"

record DiaElementObjectChange =
  element :: addr
  corner :: Point
  width :: real
  height :: real

text \<open>
  \<open>_element_change_swap\<close> (without the leading underscore, which a name cannot
  start with here). When the guard \<open>g_return_if_fail (!obj || obj == &(ec->element->object))\<close>
  fails the function returns with nothing written. Otherwise it reads and writes the
  element that \<open>ec->element\<close> points to: the result is \<open>None\<close> when the store has
  no element there, which C leaves undefined.
\<close>

definition element_change_swap ::
  "DiaElementObjectChange \<Rightarrow> addr option \<Rightarrow> store \<Rightarrow> (DiaElementObjectChange \<times> store) option" where
  "element_change_swap ec obj mem =
     (if \<not> (obj = None \<or> obj = Some (element ec)) then Some (ec, mem)
      else
        (case mem (element ec) of
           None \<Rightarrow> None
         | Some elem \<Rightarrow>
             let tmppt = corner ec;
                 ec = ec\<lparr>corner := position (object elem)\<rparr>;
                 elem = elem\<lparr>object := (object elem)\<lparr>position := tmppt\<rparr>\<rparr>;
                 tmp = width ec;
                 ec = ec\<lparr>width := Element.width elem\<rparr>;
                 elem = elem\<lparr>Element.width := tmp\<rparr>;
                 tmp = height ec;
                 ec = ec\<lparr>height := Element.height elem\<rparr>;
                 elem = elem\<lparr>Element.height := tmp\<rparr>
             in Some (ec, mem(element ec \<mapsto> elem))))"

definition dia_element_object_change_revert ::
  "DiaElementObjectChange \<Rightarrow> addr option \<Rightarrow> store \<Rightarrow> (DiaElementObjectChange \<times> store) option" where
  "dia_element_object_change_revert self obj mem = element_change_swap self obj mem"

definition dia_element_object_change_apply ::
  "DiaElementObjectChange \<Rightarrow> addr option \<Rightarrow> store \<Rightarrow> (DiaElementObjectChange \<times> store) option" where
  "dia_element_object_change_apply self obj mem = element_change_swap self obj mem"

text \<open>
  \<open>element_change_new\<close>: the parameters \<open>corner\<close> (a pointer, never dereferenced:
  \<open>None\<close> is \<open>NULL\<close>), \<open>width\<close> and \<open>height\<close> are \<open>corner0\<close>, \<open>width0\<close> and
  \<open>height0\<close> here. The new record is returned; the store is only read.
\<close>

definition element_change_new ::
  "Point option \<Rightarrow> real \<Rightarrow> real \<Rightarrow> addr \<Rightarrow> store \<Rightarrow> DiaElementObjectChange option" where
  "element_change_new corner0 width0 height0 elem mem =
     (case mem elem of
        None \<Rightarrow> None
      | Some e \<Rightarrow>
          Some \<lparr>element = elem, corner = Element.corner e,
                width = Element.width e, height = Element.height e\<rparr>)"

subsection \<open>\<open>element_load\<close>\<close>

text \<open>
  \<open>element_load\<close> calls five functions of the base layer, none of them under src/:
  \<open>object_load\<close>, \<open>object_find_attribute\<close>, \<open>attribute_first_data\<close>,
  \<open>data_point\<close> and \<open>data_real\<close>. They are parameters of the model, over any types
  of object nodes, attribute nodes, data nodes and contexts. The context \<open>ctx\<close>, where
  the base layer reports its errors, is passed along and returned; \<open>data_point\<close> writes
  through a pointer to the corner, so it takes the point there and returns the point it
  leaves; a \<open>NULL\<close> attribute is \<open>None\<close>.
\<close>

definition element_load ::
  "(DiaObject \<Rightarrow> 'node \<Rightarrow> 'ctx \<Rightarrow> DiaObject \<times> 'ctx) \<Rightarrow>
   ('node \<Rightarrow> string \<Rightarrow> 'attr option) \<Rightarrow>
   ('attr \<Rightarrow> 'data) \<Rightarrow>
   ('data \<Rightarrow> Point \<Rightarrow> 'ctx \<Rightarrow> Point \<times> 'ctx) \<Rightarrow>
   ('data \<Rightarrow> 'ctx \<Rightarrow> real \<times> 'ctx) \<Rightarrow>
   Element \<Rightarrow> 'node \<Rightarrow> 'ctx \<Rightarrow> Element \<times> 'ctx" where
  "element_load object_load object_find_attribute attribute_first_data data_point data_real
     elem obj_node ctx =
     (case object_load (object elem) obj_node ctx of (ob, ctx) \<Rightarrow>
      let elem = elem\<lparr>object := ob\<rparr>;
          elem = elem\<lparr>Element.corner := \<lparr>x = 0, y = 0\<rparr>\<rparr>;
          (elem, ctx) =
            (case object_find_attribute obj_node ''elem_corner'' of
               None \<Rightarrow> (elem, ctx)
             | Some attr \<Rightarrow>
                 (case data_point (attribute_first_data attr) (Element.corner elem) ctx of
                    (pt, ctx) \<Rightarrow> (elem\<lparr>Element.corner := pt\<rparr>, ctx)));
          elem = elem\<lparr>Element.width := 1\<rparr>;
          (elem, ctx) =
            (case object_find_attribute obj_node ''elem_width'' of
               None \<Rightarrow> (elem, ctx)
             | Some attr \<Rightarrow>
                 (case data_real (attribute_first_data attr) ctx of
                    (r, ctx) \<Rightarrow> (elem\<lparr>Element.width := r\<rparr>, ctx)));
          elem = elem\<lparr>Element.height := 1\<rparr>;
          (elem, ctx) =
            (case object_find_attribute obj_node ''elem_height'' of
               None \<Rightarrow> (elem, ctx)
             | Some attr \<Rightarrow>
                 (case data_real (attribute_first_data attr) ctx of
                    (r, ctx) \<Rightarrow> (elem\<lparr>Element.height := r\<rparr>, ctx)))
      in (elem, ctx))"

subsection \<open>The layout and the direction rule, as the spec words them\<close>

text \<open>
  The eight canonical positions of the spec, in the order NW, N, NE, W, E, SW, S, SE:
  the four corners and the four edge midpoints of the rectangle given by \<open>corner\<close>,
  \<open>width\<close> and \<open>height\<close>; and its center.
\<close>

definition spec_rectangle_points :: "Element \<Rightarrow> Point list" where
  "spec_rectangle_points elem =
     (let cx = x (Element.corner elem); cy = y (Element.corner elem);
          w = Element.width elem; h = Element.height elem
      in [\<lparr>x = cx, y = cy\<rparr>, \<lparr>x = cx + w / 2, y = cy\<rparr>, \<lparr>x = cx + w, y = cy\<rparr>,
          \<lparr>x = cx, y = cy + h / 2\<rparr>, \<lparr>x = cx + w, y = cy + h / 2\<rparr>,
          \<lparr>x = cx, y = cy + h\<rparr>, \<lparr>x = cx + w / 2, y = cy + h\<rparr>, \<lparr>x = cx + w, y = cy + h\<rparr>])"

definition spec_center :: "Element \<Rightarrow> Point" where
  "spec_center elem =
     \<lparr>x = x (Element.corner elem) + Element.width elem / 2,
      y = y (Element.corner elem) + Element.height elem / 2\<rparr>"

text \<open>
  The mask of a position relative to a center: east if strictly right of it, else west
  if strictly left of it, and no horizontal cardinal on its vertical axis; south if
  strictly below it, else north if strictly above it, and no vertical cardinal on its
  horizontal axis.
\<close>

definition spec_quadrant_mask :: "Point \<Rightarrow> Point \<Rightarrow> cardinal set" where
  "spec_quadrant_mask center p =
     (if x p > x center then {East} else if x p < x center then {West} else {}) \<union>
     (if y p > y center then {South} else if y p < y center then {North} else {})"

subsection \<open>Sample values\<close>

text \<open>
  A well-formed element at a given pose, as a subtype sets it up: eight handles, nine
  connection points, the position of the base object equal to the corner, and the
  handles laid out by \<open>element_update_handles\<close>.
\<close>

definition element_at :: "Point \<Rightarrow> real \<Rightarrow> real \<Rightarrow> Element" where
  "element_at c w h =
     element_update_handles
       \<lparr>object = \<lparr>position = c, num_handles = 8, num_connections = 9\<rparr>,
        resize_handles = replicate 8 \<lparr>id' = HANDLE_RESIZE_NW, Handle.pos = \<lparr>x = 0, y = 0\<rparr>\<rparr>,
        Element.corner = c, Element.width = w, Element.height = h\<rparr>"

text \<open>
  A small base layer to run \<open>element_load\<close> on: an object node is a list of named
  values, an attribute is its value, the context is the list of the messages reported.
  Reading a value of the wrong kind reports a message.
\<close>

datatype sample_data = Data_point Point | Data_real real

definition sample_object_load :: "DiaObject \<Rightarrow> (string \<times> sample_data) list \<Rightarrow> string list \<Rightarrow> DiaObject \<times> string list" where
  "sample_object_load ob node ctx = (ob, ctx)"

definition sample_find_attribute :: "(string \<times> sample_data) list \<Rightarrow> string \<Rightarrow> sample_data option" where
  "sample_find_attribute node name = map_of node name"

definition sample_first_data :: "sample_data \<Rightarrow> sample_data" where
  "sample_first_data attr = attr"

definition sample_data_point :: "sample_data \<Rightarrow> Point \<Rightarrow> string list \<Rightarrow> Point \<times> string list" where
  "sample_data_point d pt ctx =
     (case d of Data_point p \<Rightarrow> (p, ctx) | Data_real r \<Rightarrow> (pt, ctx @ [''not a point'']))"

definition sample_data_real :: "sample_data \<Rightarrow> string list \<Rightarrow> real \<times> string list" where
  "sample_data_real d ctx =
     (case d of Data_real r \<Rightarrow> (r, ctx) | Data_point p \<Rightarrow> (0, ctx @ [''not a real'']))"

text \<open>Two arrays of nine connection points: blank ones, and ones placed on the
  rectangle of corner \<open>(0, 0)\<close>, width 4 and height 2, the ninth flagged with 3.\<close>

definition sample_cps :: "ConnectionPoint list" where
  "sample_cps = replicate 9 \<lparr>ConnectionPoint.pos = \<lparr>x = 0, y = 0\<rparr>, directions = {}, flags = 0\<rparr>"

definition sample_cps_placed :: "ConnectionPoint list" where
  "sample_cps_placed =
     map (\<lambda>(px, py, f). \<lparr>ConnectionPoint.pos = \<lparr>x = px, y = py\<rparr>, directions = {}, flags = f\<rparr>)
       [(0, 0, 0), (2, 0, 0), (4, 0, 0), (0, 1, 0), (4, 1, 0), (0, 2, 0), (2, 2, 0), (4, 2, 0),
        (2, 1, 3)]"

text \<open>Two more arrays of nine points: the layout of the rectangle of corner \<open>(0, 0)\<close>,
  width 0 and height 2, the ninth flagged with 3; and the layout of the rectangle of
  width 4 and height 2 with the point of the middle of the right side flagged with 3.\<close>

definition sample_cps_flat :: "ConnectionPoint list" where
  "sample_cps_flat =
     map (\<lambda>(px, py, f). \<lparr>ConnectionPoint.pos = \<lparr>x = px, y = py\<rparr>, directions = {}, flags = f\<rparr>)
       [(0, 0, 0), (0, 0, 0), (0, 0, 0), (0, 1, 0), (0, 1, 0), (0, 2, 0), (0, 2, 0), (0, 2, 0),
        (0, 1, 3)]"

definition sample_cps_main_east :: "ConnectionPoint list" where
  "sample_cps_main_east =
     map (\<lambda>(px, py, f). \<lparr>ConnectionPoint.pos = \<lparr>x = px, y = py\<rparr>, directions = {}, flags = f\<rparr>)
       [(0, 0, 0), (2, 0, 0), (4, 0, 0), (0, 1, 0), (4, 1, 3), (0, 2, 0), (2, 2, 0), (4, 2, 0),
        (2, 1, 0)]"

section \<open>Theorems\<close>

subsection \<open>Helper lemmas\<close>

lemmas move_blocks =
  move_left_side_def move_top_side_def set_width_from_def set_height_from_def

lemmas aspect_steps =
  aspect_switch_def aspect_conform_def aspect_clamp_def

lemmas dir_consts =
  DIR_NONE_def DIR_NORTH_def DIR_EAST_def DIR_SOUTH_def DIR_WEST_def DIR_ALL_def

lemma element_at_fields:
  "object (element_at c w h) = \<lparr>position = c, num_handles = 8, num_connections = 9\<rparr>"
  "Element.corner (element_at c w h) = c"
  "Element.width (element_at c w h) = w"
  "Element.height (element_at c w h) = h"
  "length (resize_handles (element_at c w h)) = 8"
  by (simp_all add: element_at_def element_update_handles_def set_handle_def Let_def)

subsection \<open>The free resize\<close>

text \<open>
  C1. \<open>element_move_handle\<close> follows the rules of the handles: with the handle NW and a
  target at or beyond the opposite corner the element is unchanged; with the handle SE
  and an offset \<open>p = to - corner\<close> positive in both coordinates the width becomes
  \<open>p.x\<close> and the height \<open>p.y\<close>, the corner staying; with the handle E and
  \<open>p.x \<le> 0\<close> the element is unchanged. The three scenarios of the spec follow.
\<close>

theorem element_move_handle_rules:
  "(x to \<ge> x (Element.corner elem) + Element.width elem \<and>
    y to \<ge> y (Element.corner elem) + Element.height elem
      \<longrightarrow> element_move_handle elem HANDLE_RESIZE_NW to = elem)
   \<and> (x (point_sub to (Element.corner elem)) > 0 \<and> y (point_sub to (Element.corner elem)) > 0
      \<longrightarrow> element_move_handle elem HANDLE_RESIZE_SE to =
          elem\<lparr>Element.width := x (point_sub to (Element.corner elem)),
               Element.height := y (point_sub to (Element.corner elem))\<rparr>)
   \<and> (x (point_sub to (Element.corner elem)) \<le> 0
      \<longrightarrow> element_move_handle elem HANDLE_RESIZE_E to = elem)
   \<and> element_move_handle
        \<lparr>object = ob, resize_handles = hs, Element.corner = \<lparr>x = 10, y = 10\<rparr>,
         Element.width = 4, Element.height = 4\<rparr>
        HANDLE_RESIZE_NW \<lparr>x = 20, y = 20\<rparr>
       = \<lparr>object = ob, resize_handles = hs, Element.corner = \<lparr>x = 10, y = 10\<rparr>,
          Element.width = 4, Element.height = 4\<rparr>
   \<and> element_move_handle
        \<lparr>object = ob, resize_handles = hs, Element.corner = \<lparr>x = 0, y = 0\<rparr>,
         Element.width = 2, Element.height = 2\<rparr>
        HANDLE_RESIZE_SE \<lparr>x = 5, y = 3\<rparr>
       = \<lparr>object = ob, resize_handles = hs, Element.corner = \<lparr>x = 0, y = 0\<rparr>,
          Element.width = 5, Element.height = 3\<rparr>
   \<and> element_move_handle
        \<lparr>object = ob, resize_handles = hs, Element.corner = \<lparr>x = 0, y = 0\<rparr>,
         Element.width = 5, Element.height = 5\<rparr>
        HANDLE_RESIZE_E \<lparr>x = - 1, y = 2\<rparr>
       = \<lparr>object = ob, resize_handles = hs, Element.corner = \<lparr>x = 0, y = 0\<rparr>,
          Element.width = 5, Element.height = 5\<rparr>"
  by (simp add: element_move_handle_def move_blocks point_sub_def Let_def)

theorem element_move_handle_rules_witness:
  "(x \<lparr>x = 20, y = 20\<rparr> \<ge> x (Element.corner (element_at \<lparr>x = 10, y = 10\<rparr> 4 4))
        + Element.width (element_at \<lparr>x = 10, y = 10\<rparr> 4 4) \<and>
    y \<lparr>x = 20, y = 20\<rparr> \<ge> y (Element.corner (element_at \<lparr>x = 10, y = 10\<rparr> 4 4))
        + Element.height (element_at \<lparr>x = 10, y = 10\<rparr> 4 4))
   \<and> element_move_handle (element_at \<lparr>x = 10, y = 10\<rparr> 4 4) HANDLE_RESIZE_NW \<lparr>x = 20, y = 20\<rparr>
       = element_at \<lparr>x = 10, y = 10\<rparr> 4 4
   \<and> (x (point_sub \<lparr>x = 5, y = 3\<rparr> (Element.corner (element_at \<lparr>x = 0, y = 0\<rparr> 2 2))) > 0 \<and>
      y (point_sub \<lparr>x = 5, y = 3\<rparr> (Element.corner (element_at \<lparr>x = 0, y = 0\<rparr> 2 2))) > 0)
   \<and> element_move_handle (element_at \<lparr>x = 0, y = 0\<rparr> 2 2) HANDLE_RESIZE_SE \<lparr>x = 5, y = 3\<rparr>
       = (element_at \<lparr>x = 0, y = 0\<rparr> 2 2)\<lparr>Element.width := 5, Element.height := 3\<rparr>
   \<and> x (point_sub \<lparr>x = - 1, y = 2\<rparr> (Element.corner (element_at \<lparr>x = 0, y = 0\<rparr> 5 5))) \<le> 0
   \<and> element_move_handle (element_at \<lparr>x = 0, y = 0\<rparr> 5 5) HANDLE_RESIZE_E \<lparr>x = - 1, y = 2\<rparr>
       = element_at \<lparr>x = 0, y = 0\<rparr> 5 5"
  using element_move_handle_rules
          [where to = "\<lparr>x = 20, y = 20\<rparr>" and elem = "element_at \<lparr>x = 10, y = 10\<rparr> 4 4"]
        element_move_handle_rules
          [where to = "\<lparr>x = 5, y = 3\<rparr>" and elem = "element_at \<lparr>x = 0, y = 0\<rparr> 2 2"]
        element_move_handle_rules
          [where to = "\<lparr>x = - 1, y = 2\<rparr>" and elem = "element_at \<lparr>x = 0, y = 0\<rparr> 5 5"]
  by (simp add: element_at_fields point_sub_def)

text \<open>
  C2. From an element of non-negative width and height, \<open>element_move_handle\<close> with a
  resize id leaves the width and the height non-negative, whatever the target. The
  dragged side does not cross the opposite side, which stays where it was: a handle of
  the left side leaves the corner at or left of the old right side, a handle of the
  right side leaves the right side at or right of the old corner, and likewise for the
  top and the bottom.
\<close>

theorem element_move_handle_nonneg:
  assumes "0 \<le> Element.width elem" and "0 \<le> Element.height elem"
    and "HandleId_val HANDLE_RESIZE_NW \<le> HandleId_val hid"
    and "HandleId_val hid \<le> HandleId_val HANDLE_RESIZE_SE"
  shows "0 \<le> Element.width (element_move_handle elem hid to)
    \<and> 0 \<le> Element.height (element_move_handle elem hid to)
    \<and> (hid \<in> {HANDLE_RESIZE_NW, HANDLE_RESIZE_W, HANDLE_RESIZE_SW} \<longrightarrow>
         x (Element.corner (element_move_handle elem hid to))
           \<le> x (Element.corner elem) + Element.width elem
         \<and> x (Element.corner (element_move_handle elem hid to))
             + Element.width (element_move_handle elem hid to)
           = x (Element.corner elem) + Element.width elem)
    \<and> (hid \<in> {HANDLE_RESIZE_NE, HANDLE_RESIZE_E, HANDLE_RESIZE_SE} \<longrightarrow>
         x (Element.corner (element_move_handle elem hid to)) = x (Element.corner elem))
    \<and> (hid \<in> {HANDLE_RESIZE_NW, HANDLE_RESIZE_N, HANDLE_RESIZE_NE} \<longrightarrow>
         y (Element.corner (element_move_handle elem hid to))
           \<le> y (Element.corner elem) + Element.height elem
         \<and> y (Element.corner (element_move_handle elem hid to))
             + Element.height (element_move_handle elem hid to)
           = y (Element.corner elem) + Element.height elem)
    \<and> (hid \<in> {HANDLE_RESIZE_SW, HANDLE_RESIZE_S, HANDLE_RESIZE_SE} \<longrightarrow>
         y (Element.corner (element_move_handle elem hid to)) = y (Element.corner elem))"
  using assms
  by (cases hid) (simp_all add: element_move_handle_def move_blocks point_sub_def Let_def)

theorem element_move_handle_nonneg_witness:
  "0 \<le> Element.width (element_at \<lparr>x = 10, y = 10\<rparr> 4 4)
   \<and> 0 \<le> Element.height (element_at \<lparr>x = 10, y = 10\<rparr> 4 4)
   \<and> HandleId_val HANDLE_RESIZE_NW \<le> HandleId_val HANDLE_RESIZE_NW
   \<and> HandleId_val HANDLE_RESIZE_NW \<le> HandleId_val HANDLE_RESIZE_SE
   \<and> 0 \<le> Element.width
            (element_move_handle (element_at \<lparr>x = 10, y = 10\<rparr> 4 4) HANDLE_RESIZE_NW \<lparr>x = 12, y = 30\<rparr>)
   \<and> 0 \<le> Element.height
            (element_move_handle (element_at \<lparr>x = 10, y = 10\<rparr> 4 4) HANDLE_RESIZE_NW \<lparr>x = 12, y = 30\<rparr>)
   \<and> x (Element.corner
            (element_move_handle (element_at \<lparr>x = 10, y = 10\<rparr> 4 4) HANDLE_RESIZE_NW \<lparr>x = 12, y = 30\<rparr>))
       \<le> 14"
proof -
  have hyps: "0 \<le> Element.width (element_at \<lparr>x = 10, y = 10\<rparr> 4 4)"
    "0 \<le> Element.height (element_at \<lparr>x = 10, y = 10\<rparr> 4 4)"
    "HandleId_val HANDLE_RESIZE_NW \<le> HandleId_val HANDLE_RESIZE_NW"
    "HandleId_val HANDLE_RESIZE_NW \<le> HandleId_val HANDLE_RESIZE_SE"
    by (simp_all add: element_at_fields)
  show ?thesis
    using hyps element_move_handle_nonneg [OF hyps, of "\<lparr>x = 12, y = 30\<rparr>"]
    by (simp add: element_at_fields)
qed

subsection \<open>The resize at a fixed aspect ratio\<close>

text \<open>
  C3. For a resize id and a positive aspect ratio, \<open>element_move_handle_aspect\<close> does
  what the four steps of the spec say: the candidate of the handle with its unset axes
  as 0, the conformance to the ratio, the clamp of both sizes to 0 when one is
  negative, and the translation of the corner by the anchor fractions; the anchor
  point \<open>corner + (ax * width, ay * height)\<close> is where it was. The two scenarios of
  the spec follow.
\<close>

theorem element_move_handle_aspect_rules:
  "(HandleId_val HANDLE_RESIZE_NW \<le> HandleId_val hid \<and>
    HandleId_val hid \<le> HandleId_val HANDLE_RESIZE_SE \<and> 0 < aspect_ratio \<longrightarrow>
      element_move_handle_aspect elem hid to aspect_ratio
        = spec_move_handle_aspect elem hid to aspect_ratio
      \<and> x (Element.corner (element_move_handle_aspect elem hid to aspect_ratio))
          + fst (spec_anchor hid) * Element.width (element_move_handle_aspect elem hid to aspect_ratio)
        = x (Element.corner elem) + fst (spec_anchor hid) * Element.width elem
      \<and> y (Element.corner (element_move_handle_aspect elem hid to aspect_ratio))
          + snd (spec_anchor hid) * Element.height (element_move_handle_aspect elem hid to aspect_ratio)
        = y (Element.corner elem) + snd (spec_anchor hid) * Element.height elem)
   \<and> element_move_handle_aspect
        \<lparr>object = ob, resize_handles = hs, Element.corner = \<lparr>x = 0, y = 0\<rparr>,
         Element.width = 10, Element.height = 10\<rparr>
        HANDLE_RESIZE_NW \<lparr>x = 2, y = 6\<rparr> 2
       = \<lparr>object = ob, resize_handles = hs, Element.corner = \<lparr>x = 2, y = 6\<rparr>,
          Element.width = 8, Element.height = 4\<rparr>
   \<and> element_move_handle_aspect
        \<lparr>object = ob, resize_handles = hs, Element.corner = \<lparr>x = 0, y = 0\<rparr>,
         Element.width = 2, Element.height = 2\<rparr>
        HANDLE_RESIZE_NW \<lparr>x = 3, y = 3\<rparr> 1
       = \<lparr>object = ob, resize_handles = hs, Element.corner = \<lparr>x = 2, y = 2\<rparr>,
          Element.width = 0, Element.height = 0\<rparr>"
proof (intro conjI impI)
  assume v: "HandleId_val HANDLE_RESIZE_NW \<le> HandleId_val hid \<and>
    HandleId_val hid \<le> HandleId_val HANDLE_RESIZE_SE \<and> 0 < aspect_ratio"
  then show "element_move_handle_aspect elem hid to aspect_ratio
        = spec_move_handle_aspect elem hid to aspect_ratio"
    by (cases hid)
      (simp_all add: element_move_handle_aspect_def spec_move_handle_aspect_def aspect_steps
        unset_as_zero_def point_sub_def Let_def)
  from v show "x (Element.corner (element_move_handle_aspect elem hid to aspect_ratio))
          + fst (spec_anchor hid) * Element.width (element_move_handle_aspect elem hid to aspect_ratio)
        = x (Element.corner elem) + fst (spec_anchor hid) * Element.width elem"
    by (cases hid)
      (simp_all add: element_move_handle_aspect_def aspect_steps point_sub_def Let_def
        algebra_simps)
  from v show "y (Element.corner (element_move_handle_aspect elem hid to aspect_ratio))
          + snd (spec_anchor hid) * Element.height (element_move_handle_aspect elem hid to aspect_ratio)
        = y (Element.corner elem) + snd (spec_anchor hid) * Element.height elem"
    by (cases hid)
      (simp_all add: element_move_handle_aspect_def aspect_steps point_sub_def Let_def
        algebra_simps)
qed (simp_all add: element_move_handle_aspect_def aspect_steps point_sub_def)

theorem element_move_handle_aspect_rules_witness:
  "(HandleId_val HANDLE_RESIZE_NW \<le> HandleId_val HANDLE_RESIZE_E \<and>
    HandleId_val HANDLE_RESIZE_E \<le> HandleId_val HANDLE_RESIZE_SE \<and> (0::real) < 2)
   \<and> element_move_handle_aspect (element_at \<lparr>x = 0, y = 0\<rparr> 2 2) HANDLE_RESIZE_E \<lparr>x = 6, y = 9\<rparr> 2
       = spec_move_handle_aspect (element_at \<lparr>x = 0, y = 0\<rparr> 2 2) HANDLE_RESIZE_E \<lparr>x = 6, y = 9\<rparr> 2
   \<and> Element.corner
        (element_move_handle_aspect (element_at \<lparr>x = 0, y = 0\<rparr> 2 2) HANDLE_RESIZE_E \<lparr>x = 6, y = 9\<rparr> 2)
       = \<lparr>x = 0, y = - (1 / 2)\<rparr>
   \<and> y (Element.corner
        (element_move_handle_aspect (element_at \<lparr>x = 0, y = 0\<rparr> 2 2) HANDLE_RESIZE_E \<lparr>x = 6, y = 9\<rparr> 2))
       + snd (spec_anchor HANDLE_RESIZE_E)
         * Element.height
            (element_move_handle_aspect (element_at \<lparr>x = 0, y = 0\<rparr> 2 2) HANDLE_RESIZE_E \<lparr>x = 6, y = 9\<rparr> 2)
       = 1"
  using element_move_handle_aspect_rules
          [where hid = HANDLE_RESIZE_E and aspect_ratio = 2
             and elem = "element_at \<lparr>x = 0, y = 0\<rparr> 2 2" and to = "\<lparr>x = 6, y = 9\<rparr>"]
  by (simp add: element_at_fields spec_move_handle_aspect_def unset_as_zero_def Let_def)

text \<open>
  C10. For a resize id and a positive aspect ratio, the element that
  \<open>element_move_handle_aspect\<close> leaves has \<open>width = height * aspect_ratio\<close>, in the
  clamped case with both equal to 0.
\<close>

theorem element_move_handle_aspect_ratio:
  assumes "HandleId_val HANDLE_RESIZE_NW \<le> HandleId_val hid"
    and "HandleId_val hid \<le> HandleId_val HANDLE_RESIZE_SE"
    and "0 < aspect_ratio"
  shows "Element.width (element_move_handle_aspect elem hid to aspect_ratio)
    = Element.height (element_move_handle_aspect elem hid to aspect_ratio) * aspect_ratio"
  using assms
  by (cases hid)
    (simp_all add: element_move_handle_aspect_def aspect_steps point_sub_def Let_def)

theorem element_move_handle_aspect_ratio_witness:
  "HandleId_val HANDLE_RESIZE_NW \<le> HandleId_val HANDLE_RESIZE_SW
   \<and> HandleId_val HANDLE_RESIZE_SW \<le> HandleId_val HANDLE_RESIZE_SE
   \<and> (0::real) < 3
   \<and> Element.width
        (element_move_handle_aspect (element_at \<lparr>x = 1, y = 1\<rparr> 4 4) HANDLE_RESIZE_SW \<lparr>x = 2, y = 7\<rparr> 3)
     = Element.height
        (element_move_handle_aspect (element_at \<lparr>x = 1, y = 1\<rparr> 4 4) HANDLE_RESIZE_SW \<lparr>x = 2, y = 7\<rparr> 3)
       * 3
   \<and> Element.height
        (element_move_handle_aspect (element_at \<lparr>x = 1, y = 1\<rparr> 4 4) HANDLE_RESIZE_SW \<lparr>x = 2, y = 7\<rparr> 3)
     = 6"
proof -
  have hyps: "HandleId_val HANDLE_RESIZE_NW \<le> HandleId_val HANDLE_RESIZE_SW"
    "HandleId_val HANDLE_RESIZE_SW \<le> HandleId_val HANDLE_RESIZE_SE" "(0::real) < 3"
    by simp_all
  show ?thesis
    using hyps element_move_handle_aspect_ratio
      [OF hyps, of "element_at \<lparr>x = 1, y = 1\<rparr> 4 4" "\<lparr>x = 2, y = 7\<rparr>"]
    by (simp add: element_move_handle_aspect_def aspect_steps point_sub_def element_at_fields)
qed

subsection \<open>Handles and connection points\<close>

text \<open>
  An array of known size, as the list of its elements; the pose, which
  \<open>element_update_handles\<close> leaves; and the layout of the handles.
\<close>

lemma list_of_length_8:
  "length hs = 8 \<Longrightarrow> \<exists>h0 h1 h2 h3 h4 h5 h6 h7. hs = [h0, h1, h2, h3, h4, h5, h6, h7]"
  by (auto simp add: eval_nat_numeral length_Suc_conv)

lemma list_of_length_ge_9:
  "9 \<le> length cs \<Longrightarrow> \<exists>c0 c1 c2 c3 c4 c5 c6 c7 c8 r. cs = c0 # c1 # c2 # c3 # c4 # c5 # c6 # c7 # c8 # r"
  by (simp add: eval_nat_numeral Suc_le_length_iff) blast

lemma element_update_handles_pose:
  "object (element_update_handles elem) = object elem"
  "Element.corner (element_update_handles elem) = Element.corner elem"
  "Element.width (element_update_handles elem) = Element.width elem"
  "Element.height (element_update_handles elem) = Element.height elem"
  by (simp_all add: element_update_handles_def Let_def)

lemma element_update_handles_layout:
  assumes "length (resize_handles elem) = 8"
  shows "map Handle.pos (resize_handles (element_update_handles elem)) = spec_rectangle_points elem"
    and "map id' (resize_handles (element_update_handles elem)) =
          [HANDLE_RESIZE_NW, HANDLE_RESIZE_N, HANDLE_RESIZE_NE, HANDLE_RESIZE_W,
           HANDLE_RESIZE_E, HANDLE_RESIZE_SW, HANDLE_RESIZE_S, HANDLE_RESIZE_SE]"
proof -
  from list_of_length_8 [OF assms] obtain h0 h1 h2 h3 h4 h5 h6 h7
    where hs: "resize_handles elem = [h0, h1, h2, h3, h4, h5, h6, h7]" by blast
  show "map Handle.pos (resize_handles (element_update_handles elem)) = spec_rectangle_points elem"
    using hs
    by (simp add: element_update_handles_def set_handle_def spec_rectangle_points_def Let_def
        eval_nat_numeral)
  show "map id' (resize_handles (element_update_handles elem)) =
          [HANDLE_RESIZE_NW, HANDLE_RESIZE_N, HANDLE_RESIZE_NE, HANDLE_RESIZE_W,
           HANDLE_RESIZE_E, HANDLE_RESIZE_SW, HANDLE_RESIZE_S, HANDLE_RESIZE_SE]"
    using hs
    by (simp add: element_update_handles_def set_handle_def Let_def eval_nat_numeral)
qed

lemma element_update_connections_rectangle_result:
  assumes "9 \<le> length cps" and "9 \<le> num_connections (object elem)"
  shows "\<exists>cps'. element_update_connections_rectangle elem cps = Inr cps'
     \<and> map ConnectionPoint.pos (take 8 cps') = spec_rectangle_points elem
     \<and> ConnectionPoint.pos (cps' ! 8) = spec_center elem
     \<and> map directions (take 9 cps') =
         [{North, West}, {North}, {North, East}, {West}, {East},
          {South, West}, {South}, {South, East}, {North, East, South, West}]"
proof -
  from list_of_length_ge_9 [OF assms(1)] obtain c0 c1 c2 c3 c4 c5 c6 c7 c8 r
    where "cps = c0 # c1 # c2 # c3 # c4 # c5 # c6 # c7 # c8 # r" by blast
  then show ?thesis
    using assms(2)
    by (simp add: element_update_connections_rectangle_def set_pos_def set_directions_def
        spec_rectangle_points_def spec_center_def Let_def eval_nat_numeral dir_consts
        insert_commute)
qed

text \<open>
  C6. After \<open>element_update_handles\<close> and \<open>element_update_connections_rectangle\<close>, on
  an element with its eight handle slots and at least nine connection points, the
  positions of \<open>cps[0..7]\<close> are those of the eight resize handles, in the order NW, N,
  NE, W, E, SW, S, SE of the handle ids, which are the four corners and the four edge
  midpoints of the rectangle; \<open>cps[8]\<close> is at the center; and the direction masks are
  the two adjacent cardinals at a corner, the outward cardinal at an edge midpoint, and
  all four at the center.
\<close>

theorem element_update_connections_rectangle_layout:
  assumes "length (resize_handles elem) = 8"
    and "9 \<le> length cps"
    and "9 \<le> num_connections (object elem)"
  shows "\<exists>cps'. element_update_connections_rectangle (element_update_handles elem) cps = Inr cps'
     \<and> map ConnectionPoint.pos (take 8 cps')
         = map Handle.pos (resize_handles (element_update_handles elem))
     \<and> map id' (resize_handles (element_update_handles elem)) =
          [HANDLE_RESIZE_NW, HANDLE_RESIZE_N, HANDLE_RESIZE_NE, HANDLE_RESIZE_W,
           HANDLE_RESIZE_E, HANDLE_RESIZE_SW, HANDLE_RESIZE_S, HANDLE_RESIZE_SE]
     \<and> map ConnectionPoint.pos (take 8 cps') = spec_rectangle_points elem
     \<and> ConnectionPoint.pos (cps' ! 8) = spec_center elem
     \<and> map directions (take 9 cps') =
         [{North, West}, {North}, {North, East}, {West}, {East},
          {South, West}, {South}, {South, East}, {North, East, South, West}]"
proof -
  have same: "spec_rectangle_points (element_update_handles elem) = spec_rectangle_points elem"
    "spec_center (element_update_handles elem) = spec_center elem"
    by (simp_all add: spec_rectangle_points_def spec_center_def element_update_handles_pose)
  note l = element_update_handles_layout [OF assms(1)]
  have "9 \<le> num_connections (object (element_update_handles elem))"
    using assms(3) by (simp add: element_update_handles_pose)
  from element_update_connections_rectangle_result [OF assms(2) this]
  show ?thesis
  proof (elim exE conjE)
    fix cps'
    assume r: "element_update_connections_rectangle (element_update_handles elem) cps = Inr cps'"
      and p: "map ConnectionPoint.pos (take 8 cps')
                = spec_rectangle_points (element_update_handles elem)"
      and c: "ConnectionPoint.pos (cps' ! 8) = spec_center (element_update_handles elem)"
      and d: "map directions (take 9 cps') =
         [{North, West}, {North}, {North, East}, {West}, {East},
          {South, West}, {South}, {South, East}, {North, East, South, West}]"
    from p have p': "map ConnectionPoint.pos (take 8 cps') = spec_rectangle_points elem"
      by (simp only: same)
    from c have c': "ConnectionPoint.pos (cps' ! 8) = spec_center elem"
      by (simp only: same)
    have h: "map ConnectionPoint.pos (take 8 cps')
           = map Handle.pos (resize_handles (element_update_handles elem))"
      by (simp only: p' l(1))
    show ?thesis
      by (intro exI [of _ cps'] conjI) (fact r, fact h, fact l(2), fact p', fact c', fact d)
  qed
qed

theorem element_update_connections_rectangle_layout_witness:
  "length (resize_handles (element_at \<lparr>x = 1, y = 2\<rparr> 4 6)) = 8
   \<and> 9 \<le> length sample_cps
   \<and> 9 \<le> num_connections (object (element_at \<lparr>x = 1, y = 2\<rparr> 4 6))
   \<and> (\<exists>cps'. element_update_connections_rectangle
                (element_update_handles (element_at \<lparr>x = 1, y = 2\<rparr> 4 6)) sample_cps = Inr cps'
        \<and> map ConnectionPoint.pos (take 8 cps') =
            [\<lparr>x = 1, y = 2\<rparr>, \<lparr>x = 3, y = 2\<rparr>, \<lparr>x = 5, y = 2\<rparr>,
             \<lparr>x = 1, y = 5\<rparr>, \<lparr>x = 5, y = 5\<rparr>,
             \<lparr>x = 1, y = 8\<rparr>, \<lparr>x = 3, y = 8\<rparr>, \<lparr>x = 5, y = 8\<rparr>]
        \<and> ConnectionPoint.pos (cps' ! 8) = \<lparr>x = 3, y = 5\<rparr>)"
proof -
  have hyps: "length (resize_handles (element_at \<lparr>x = 1, y = 2\<rparr> 4 6)) = 8"
    "9 \<le> length sample_cps"
    "9 \<le> num_connections (object (element_at \<lparr>x = 1, y = 2\<rparr> 4 6))"
    by (simp_all add: element_at_fields sample_cps_def)
  have pts: "spec_rectangle_points (element_at \<lparr>x = 1, y = 2\<rparr> 4 6) =
            [\<lparr>x = 1, y = 2\<rparr>, \<lparr>x = 3, y = 2\<rparr>, \<lparr>x = 5, y = 2\<rparr>,
             \<lparr>x = 1, y = 5\<rparr>, \<lparr>x = 5, y = 5\<rparr>,
             \<lparr>x = 1, y = 8\<rparr>, \<lparr>x = 3, y = 8\<rparr>, \<lparr>x = 5, y = 8\<rparr>]"
    "spec_center (element_at \<lparr>x = 1, y = 2\<rparr> 4 6) = \<lparr>x = 3, y = 5\<rparr>"
    by (simp_all add: spec_rectangle_points_def spec_center_def element_at_fields)
  from element_update_connections_rectangle_layout [OF hyps]
  have "\<exists>cps'. element_update_connections_rectangle
                (element_update_handles (element_at \<lparr>x = 1, y = 2\<rparr> 4 6)) sample_cps = Inr cps'
        \<and> map ConnectionPoint.pos (take 8 cps') =
            [\<lparr>x = 1, y = 2\<rparr>, \<lparr>x = 3, y = 2\<rparr>, \<lparr>x = 5, y = 2\<rparr>,
             \<lparr>x = 1, y = 5\<rparr>, \<lparr>x = 5, y = 5\<rparr>,
             \<lparr>x = 1, y = 8\<rparr>, \<lparr>x = 3, y = 8\<rparr>, \<lparr>x = 5, y = 8\<rparr>]
        \<and> ConnectionPoint.pos (cps' ! 8) = \<lparr>x = 3, y = 5\<rparr>"
    unfolding pts by (elim exE conjE, intro exI conjI)
  with hyps show ?thesis by (intro conjI)
qed

text \<open>
  The body of the loop of \<open>element_update_connections_directions\<close> writes the mask
  only, and the loop from \<open>i\<close> applies the body to the points from \<open>i\<close> up to
  \<open>num_connections\<close>.
\<close>

lemma update_direction_directions:
  "directions (update_direction M c cp) =
     (if flags cp = M then {North, East, South, West}
      else spec_quadrant_mask c (ConnectionPoint.pos cp))"
  by (auto simp add: update_direction_def spec_quadrant_mask_def dir_consts Let_def)

lemma update_direction_others:
  "ConnectionPoint.pos (update_direction M c cp) = ConnectionPoint.pos cp"
  "flags (update_direction M c cp) = flags cp"
  by (simp_all add: update_direction_def Let_def)

lemma directions_loop_result:
  assumes "n \<le> int (length cps)"
  shows "\<exists>cps'. directions_loop M c n i cps = Inr cps' \<and> length cps' = length cps \<and>
           (\<forall>j<length cps. cps' ! j =
              (if i \<le> j \<and> int j < n then update_direction M c (cps ! j) else cps ! j))"
  using assms
proof (induction M c n i cps rule: directions_loop.induct)
  case (1 M c n i cps)
  show ?case
  proof (cases "int i < n")
    case False
    then show ?thesis by (subst directions_loop.simps) auto
  next
    case True
    with "1.prems" have il: "i < length cps" by simp
    let ?cps1 = "cps[i := update_direction M c (cps ! i)]"
    from "1.prems" have "n \<le> int (length ?cps1)" by simp
    from "1.IH" [OF True il this] obtain cps' where
      r: "directions_loop M c n (Suc i) ?cps1 = Inr cps'" and
      l: "length cps' = length ?cps1" and
      p: "\<forall>j<length ?cps1. cps' ! j =
              (if Suc i \<le> j \<and> int j < n then update_direction M c (?cps1 ! j) else ?cps1 ! j)"
      by blast
    have "directions_loop M c n i cps = Inr cps'"
      using True il r by (subst directions_loop.simps) simp
    moreover have "length cps' = length cps" using l by simp
    moreover have "\<forall>j<length cps. cps' ! j =
              (if i \<le> j \<and> int j < n then update_direction M c (cps ! j) else cps ! j)"
    proof (intro allI impI)
      fix j assume j: "j < length cps"
      with p have e: "cps' ! j =
              (if Suc i \<le> j \<and> int j < n then update_direction M c (?cps1 ! j) else ?cps1 ! j)"
        by simp
      show "cps' ! j = (if i \<le> j \<and> int j < n then update_direction M c (cps ! j) else cps ! j)"
      proof (cases "j = i")
        case True
        with e il \<open>int i < n\<close> show ?thesis by simp
      next
        case False
        with e show ?thesis by (auto simp: nth_list_update)
      qed
    qed
    ultimately show ?thesis by blast
  qed
qed

text \<open>
  C7. When the array holds the \<open>num_connections\<close> points that the loop visits,
  \<open>element_update_connections_directions\<close> returns, and every point \<open>i\<close> below
  \<open>num_connections\<close> keeps its position and flags and gets the mask of its position
  relative to the center \<open>corner + (width/2, height/2)\<close>: east or west by the strict
  comparison of \<open>pos.x\<close>, south or north by that of \<open>pos.y\<close>, no cardinal of an
  axis on which the position equals the center; except that a point whose flags are
  \<open>CP_FLAGS_MAIN\<close> gets all four cardinals. The points from \<open>num_connections\<close> on are
  not written. A point at \<open>corner + (w, h/2)\<close> gets east only when the element
  has a positive width and the point is not flagged main; the two conditions are
  needed, as the evaluation after the theorem shows.
\<close>

theorem element_update_connections_directions_masks:
  assumes "num_connections (object elem) \<le> int (length cps)"
  shows "\<exists>cps'. element_update_connections_directions CP_FLAGS_MAIN elem cps = Inr cps'
     \<and> length cps' = length cps
     \<and> (\<forall>i<length cps. int i < num_connections (object elem) \<longrightarrow>
           ConnectionPoint.pos (cps' ! i) = ConnectionPoint.pos (cps ! i)
           \<and> flags (cps' ! i) = flags (cps ! i)
           \<and> (flags (cps ! i) = CP_FLAGS_MAIN \<longrightarrow>
                 directions (cps' ! i) = {North, East, South, West})
           \<and> (flags (cps ! i) \<noteq> CP_FLAGS_MAIN \<longrightarrow>
                 directions (cps' ! i)
                   = spec_quadrant_mask (spec_center elem) (ConnectionPoint.pos (cps ! i)))
           \<and> (flags (cps ! i) \<noteq> CP_FLAGS_MAIN \<and> 0 < Element.width elem \<and>
                ConnectionPoint.pos (cps ! i)
                  = \<lparr>x = x (Element.corner elem) + Element.width elem,
                     y = y (Element.corner elem) + Element.height elem / 2\<rparr> \<longrightarrow>
                 directions (cps' ! i) = {East}))
     \<and> (\<forall>i<length cps. \<not> int i < num_connections (object elem) \<longrightarrow> cps' ! i = cps ! i)"
proof -
  from directions_loop_result [OF assms, of CP_FLAGS_MAIN "spec_center elem" 0]
  obtain cps' where
    r: "directions_loop CP_FLAGS_MAIN (spec_center elem) (num_connections (object elem)) 0 cps
          = Inr cps'"
    and l: "length cps' = length cps"
    and p: "\<forall>j<length cps. cps' ! j =
              (if 0 \<le> j \<and> int j < num_connections (object elem)
               then update_direction CP_FLAGS_MAIN (spec_center elem) (cps ! j) else cps ! j)"
    by (elim exE conjE)
  have r': "element_update_connections_directions CP_FLAGS_MAIN elem cps = Inr cps'"
    using r by (simp add: element_update_connections_directions_def spec_center_def)
  have inside: "cps' ! i = update_direction CP_FLAGS_MAIN (spec_center elem) (cps ! i)"
    if "i < length cps" "int i < num_connections (object elem)" for i
    using p that by simp
  have outside: "cps' ! i = cps ! i"
    if "i < length cps" "\<not> int i < num_connections (object elem)" for i
    using p that by simp
  have east: "spec_quadrant_mask (spec_center elem)
                \<lparr>x = x (Element.corner elem) + Element.width elem,
                 y = y (Element.corner elem) + Element.height elem / 2\<rparr> = {East}"
    if "0 < Element.width elem"
    using that by (simp add: spec_quadrant_mask_def spec_center_def)
  show ?thesis
  proof (intro exI [of _ cps'] conjI allI impI)
    show "element_update_connections_directions CP_FLAGS_MAIN elem cps = Inr cps'" by (fact r')
    show "length cps' = length cps" by (fact l)
  qed (simp_all add: inside outside update_direction_directions update_direction_others east)
qed

theorem element_update_connections_directions_masks_witness:
  "num_connections (object (element_at \<lparr>x = 0, y = 0\<rparr> 4 2)) \<le> int (length sample_cps_placed)
   \<and> (\<exists>cps'. element_update_connections_directions 3 (element_at \<lparr>x = 0, y = 0\<rparr> 4 2)
                 sample_cps_placed = Inr cps'
        \<and> directions (cps' ! 0) = {North, West}
        \<and> directions (cps' ! 1) = {North}
        \<and> directions (cps' ! 4) = {East}
        \<and> directions (cps' ! 8) = {North, East, South, West})"
proof -
  have hyp: "num_connections (object (element_at \<lparr>x = 0, y = 0\<rparr> 4 2))
               \<le> int (length sample_cps_placed)"
    by (simp add: element_at_fields sample_cps_placed_def)
  from element_update_connections_directions_masks [OF hyp, of 3]
  obtain cps' where
    r: "element_update_connections_directions 3 (element_at \<lparr>x = 0, y = 0\<rparr> 4 2)
          sample_cps_placed = Inr cps'"
    and a: "\<forall>i<length sample_cps_placed.
       int i < num_connections (object (element_at \<lparr>x = 0, y = 0\<rparr> 4 2)) \<longrightarrow>
           ConnectionPoint.pos (cps' ! i) = ConnectionPoint.pos (sample_cps_placed ! i)
           \<and> flags (cps' ! i) = flags (sample_cps_placed ! i)
           \<and> (flags (sample_cps_placed ! i) = 3 \<longrightarrow>
                 directions (cps' ! i) = {North, East, South, West})
           \<and> (flags (sample_cps_placed ! i) \<noteq> 3 \<longrightarrow>
                 directions (cps' ! i)
                   = spec_quadrant_mask (spec_center (element_at \<lparr>x = 0, y = 0\<rparr> 4 2))
                       (ConnectionPoint.pos (sample_cps_placed ! i)))
           \<and> (flags (sample_cps_placed ! i) \<noteq> 3 \<and>
                0 < Element.width (element_at \<lparr>x = 0, y = 0\<rparr> 4 2) \<and>
                ConnectionPoint.pos (sample_cps_placed ! i)
                  = \<lparr>x = x (Element.corner (element_at \<lparr>x = 0, y = 0\<rparr> 4 2))
                        + Element.width (element_at \<lparr>x = 0, y = 0\<rparr> 4 2),
                     y = y (Element.corner (element_at \<lparr>x = 0, y = 0\<rparr> 4 2))
                        + Element.height (element_at \<lparr>x = 0, y = 0\<rparr> 4 2) / 2\<rparr> \<longrightarrow>
                 directions (cps' ! i) = {East})"
    by (elim exE conjE)
  from a [THEN spec, of 0] have "directions (cps' ! 0) = {North, West}"
    by (simp add: sample_cps_placed_def element_at_fields spec_quadrant_mask_def
        spec_center_def insert_commute)
  moreover from a [THEN spec, of 1] have "directions (cps' ! 1) = {North}"
    by (simp add: sample_cps_placed_def element_at_fields spec_quadrant_mask_def spec_center_def)
  moreover from a [THEN spec, of 4] have "directions (cps' ! 4) = {East}"
    by (simp add: sample_cps_placed_def element_at_fields spec_quadrant_mask_def spec_center_def)
  moreover from a [THEN spec, of 8] have "directions (cps' ! 8) = {North, East, South, West}"
    by (simp add: sample_cps_placed_def element_at_fields spec_quadrant_mask_def spec_center_def)
  ultimately show ?thesis using hyp r by blast
qed

text \<open>
  Without the two conditions the last sentence fails, with \<open>CP_FLAGS_MAIN = 3\<close>. On
  the element of corner \<open>(0, 0)\<close>, width 0 and height 2, the point \<open>cps[4]\<close> at
  \<open>corner + (w, h/2)\<close>, not flagged main, is on the vertical axis of the center and
  gets the empty mask. On the element of width 4 and height 2, the point \<open>cps[4]\<close> at
  \<open>corner + (w, h/2)\<close>, flagged main, gets all four cardinals. Neither mask is east
  only.
\<close>

theorem element_update_connections_directions_mid_east_counterexample:
  "ConnectionPoint.pos (sample_cps_flat ! 4)
     = \<lparr>x = x (Element.corner (element_at \<lparr>x = 0, y = 0\<rparr> 0 2))
            + Element.width (element_at \<lparr>x = 0, y = 0\<rparr> 0 2),
        y = y (Element.corner (element_at \<lparr>x = 0, y = 0\<rparr> 0 2))
            + Element.height (element_at \<lparr>x = 0, y = 0\<rparr> 0 2) / 2\<rparr>
   \<and> flags (sample_cps_flat ! 4) \<noteq> 3
   \<and> map directions
        (projr (element_update_connections_directions 3 (element_at \<lparr>x = 0, y = 0\<rparr> 0 2)
                  sample_cps_flat))
       = [{North}, {North}, {North}, {}, {}, {South}, {South}, {South},
          {North, East, South, West}]
   \<and> \<not> isl (element_update_connections_directions 3 (element_at \<lparr>x = 0, y = 0\<rparr> 0 2) sample_cps_flat)
   \<and> directions
        (projr (element_update_connections_directions 3 (element_at \<lparr>x = 0, y = 0\<rparr> 0 2)
                  sample_cps_flat) ! 4) \<noteq> {East}
   \<and> ConnectionPoint.pos (sample_cps_main_east ! 4)
     = \<lparr>x = x (Element.corner (element_at \<lparr>x = 0, y = 0\<rparr> 4 2))
            + Element.width (element_at \<lparr>x = 0, y = 0\<rparr> 4 2),
        y = y (Element.corner (element_at \<lparr>x = 0, y = 0\<rparr> 4 2))
            + Element.height (element_at \<lparr>x = 0, y = 0\<rparr> 4 2) / 2\<rparr>
   \<and> \<not> isl (element_update_connections_directions 3 (element_at \<lparr>x = 0, y = 0\<rparr> 4 2)
            sample_cps_main_east)
   \<and> directions
        (projr (element_update_connections_directions 3 (element_at \<lparr>x = 0, y = 0\<rparr> 4 2)
                  sample_cps_main_east) ! 4) = {North, East, South, West}
   \<and> directions
        (projr (element_update_connections_directions 3 (element_at \<lparr>x = 0, y = 0\<rparr> 4 2)
                  sample_cps_main_east) ! 4) \<noteq> {East}"
proof -
  have flat: "element_update_connections_directions 3 (element_at \<lparr>x = 0, y = 0\<rparr> 0 2)
                sample_cps_flat
     = Inr (map (\<lambda>(px, py, f, d). \<lparr>ConnectionPoint.pos = \<lparr>x = px, y = py\<rparr>, directions = d, flags = f\<rparr>)
       [(0, 0, 0, {North}), (0, 0, 0, {North}), (0, 0, 0, {North}), (0, 1, 0, {}), (0, 1, 0, {}),
        (0, 2, 0, {South}), (0, 2, 0, {South}), (0, 2, 0, {South}),
        (0, 1, 3, {North, East, South, West})])"
    by (simp add: element_update_connections_directions_def element_at_fields sample_cps_flat_def
        directions_loop.simps update_direction_def dir_consts Let_def insert_commute)
  have main: "element_update_connections_directions 3 (element_at \<lparr>x = 0, y = 0\<rparr> 4 2)
                sample_cps_main_east
     = Inr (map (\<lambda>(px, py, f, d). \<lparr>ConnectionPoint.pos = \<lparr>x = px, y = py\<rparr>, directions = d, flags = f\<rparr>)
       [(0, 0, 0, {North, West}), (2, 0, 0, {North}), (4, 0, 0, {North, East}), (0, 1, 0, {West}),
        (4, 1, 3, {North, East, South, West}),
        (0, 2, 0, {South, West}), (2, 2, 0, {South}), (4, 2, 0, {South, East}),
        (2, 1, 0, {})])"
    by (simp add: element_update_connections_directions_def element_at_fields
        sample_cps_main_east_def directions_loop.simps update_direction_def dir_consts Let_def
        insert_commute)
  show ?thesis
    unfolding flat main
    by (simp add: element_at_fields sample_cps_flat_def sample_cps_main_east_def)
qed

subsection \<open>The undo record\<close>

text \<open>
  What the swap does when its guard holds: the widths and the heights of the record and
  of the element are exchanged, and the corner of the record is exchanged with the
  position of the base object of the element; the corner of the element is not written.
\<close>

lemma element_change_swap_exchanges:
  assumes "mem (element ec) = Some e" and "obj = None \<or> obj = Some (element ec)"
  shows "element_change_swap ec obj mem =
           Some (\<lparr>element = element ec, corner = position (object e),
                  width = Element.width e, height = Element.height e\<rparr>,
                 mem(element ec \<mapsto>
                   e\<lparr>object := (object e)\<lparr>position := corner ec\<rparr>,
                     Element.width := width ec, Element.height := height ec\<rparr>))"
  using assms by (auto simp add: element_change_swap_def Let_def)

text \<open>
  C4, on the scenario of the spec. The record is the snapshot of an element at corner
  \<open>(1, 1)\<close>, width 3 and height 4; the element is then at corner \<open>(5, 5)\<close>, width 7
  and height 8. The revert exchanges the widths and the heights, and exchanges the
  corner of the record with the position of the base object: the corner of the element
  is \<open>(5, 5)\<close> as before, not \<open>(1, 1)\<close>.
\<close>

theorem element_change_revert_scenario:
  "element_change_new None 0 0 0 [0 \<mapsto> element_at \<lparr>x = 1, y = 1\<rparr> 3 4]
     = Some \<lparr>element = 0, corner = \<lparr>x = 1, y = 1\<rparr>, width = 3, height = 4\<rparr>
   \<and> dia_element_object_change_revert
        \<lparr>element = 0, corner = \<lparr>x = 1, y = 1\<rparr>, width = 3, height = 4\<rparr> (Some 0)
        [0 \<mapsto> element_at \<lparr>x = 5, y = 5\<rparr> 7 8]
     = Some (\<lparr>element = 0, corner = \<lparr>x = 5, y = 5\<rparr>, width = 7, height = 8\<rparr>,
             [0 \<mapsto> (element_at \<lparr>x = 5, y = 5\<rparr> 7 8)
                       \<lparr>object := \<lparr>position = \<lparr>x = 1, y = 1\<rparr>, num_handles = 8,
                                  num_connections = 9\<rparr>,
                        Element.width := 3, Element.height := 4\<rparr>])
   \<and> Element.corner
        ((element_at \<lparr>x = 5, y = 5\<rparr> 7 8)
           \<lparr>object := \<lparr>position = \<lparr>x = 1, y = 1\<rparr>, num_handles = 8, num_connections = 9\<rparr>,
            Element.width := 3, Element.height := 4\<rparr>)
     = \<lparr>x = 5, y = 5\<rparr>
   \<and> Element.corner
        ((element_at \<lparr>x = 5, y = 5\<rparr> 7 8)
           \<lparr>object := \<lparr>position = \<lparr>x = 1, y = 1\<rparr>, num_handles = 8, num_connections = 9\<rparr>,
            Element.width := 3, Element.height := 4\<rparr>)
     \<noteq> \<lparr>x = 1, y = 1\<rparr>"
  by (simp add: element_change_new_def dia_element_object_change_revert_def
      element_change_swap_def Let_def element_at_fields)

text \<open>
  C5. For an element in the store, \<open>element_change_new\<close> returns a record that refers
  to the element and holds its corner, width and height at the call; the record is the
  same whatever the arguments \<open>corner\<close>, \<open>width\<close> and \<open>height\<close> are.
\<close>

theorem element_change_new_current_pose:
  assumes "mem elem = Some e"
  shows "element_change_new corner0 width0 height0 elem mem =
           Some \<lparr>element = elem, corner = Element.corner e,
                 width = Element.width e, height = Element.height e\<rparr>
    \<and> element_change_new corner0 width0 height0 elem mem
        = element_change_new corner1 width1 height1 elem mem"
  using assms by (simp add: element_change_new_def)

theorem element_change_new_current_pose_witness:
  "[0 \<mapsto> element_at \<lparr>x = 1, y = 1\<rparr> 3 4] (0::nat) = Some (element_at \<lparr>x = 1, y = 1\<rparr> 3 4)
   \<and> element_change_new (Some \<lparr>x = 9, y = 9\<rparr>) 20 30 0 [0 \<mapsto> element_at \<lparr>x = 1, y = 1\<rparr> 3 4]
       = Some \<lparr>element = 0, corner = \<lparr>x = 1, y = 1\<rparr>, width = 3, height = 4\<rparr>"
proof -
  have hyp: "[0 \<mapsto> element_at \<lparr>x = 1, y = 1\<rparr> 3 4] (0::nat)
               = Some (element_at \<lparr>x = 1, y = 1\<rparr> 3 4)"
    by simp
  show ?thesis
    using hyp element_change_new_current_pose
      [where mem = "[0 \<mapsto> element_at \<lparr>x = 1, y = 1\<rparr> 3 4]" and elem = 0
         and e = "element_at \<lparr>x = 1, y = 1\<rparr> 3 4"
         and ?corner0.0 = "Some \<lparr>x = 9, y = 9\<rparr>" and ?width0.0 = 20 and ?height0.0 = 30
         and ?corner1.0 = None and ?width1.0 = 0 and ?height1.0 = 0]
    by (simp add: element_at_fields)
qed

text \<open>
  C8. For a record that refers to an element of the store, two consecutive calls of
  \<open>apply\<close> succeed and leave the record and the store, so the element, as they were
  before the first call, whatever the object argument is.
\<close>

theorem element_change_apply_twice:
  assumes "mem (element ec) = Some e"
  shows "\<exists>ec' mem'. dia_element_object_change_apply ec obj mem = Some (ec', mem')
           \<and> dia_element_object_change_apply ec' obj mem' = Some (ec, mem)"
  using assms
  by (auto simp add: dia_element_object_change_apply_def element_change_swap_def Let_def)

theorem element_change_apply_twice_witness:
  "[0 \<mapsto> element_at \<lparr>x = 5, y = 5\<rparr> 7 8]
      (element \<lparr>element = 0, corner = \<lparr>x = 1, y = 1\<rparr>, width = 3, height = 4\<rparr>)
     = Some (element_at \<lparr>x = 5, y = 5\<rparr> 7 8)
   \<and> (\<exists>ec' mem'.
         dia_element_object_change_apply
           \<lparr>element = 0, corner = \<lparr>x = 1, y = 1\<rparr>, width = 3, height = 4\<rparr> None
           [0 \<mapsto> element_at \<lparr>x = 5, y = 5\<rparr> 7 8] = Some (ec', mem')
         \<and> dia_element_object_change_apply ec' None mem'
             = Some (\<lparr>element = 0, corner = \<lparr>x = 1, y = 1\<rparr>, width = 3, height = 4\<rparr>,
                     [0 \<mapsto> element_at \<lparr>x = 5, y = 5\<rparr> 7 8]))"
proof -
  have hyp: "[0 \<mapsto> element_at \<lparr>x = 5, y = 5\<rparr> 7 8]
      (element \<lparr>element = 0, corner = \<lparr>x = 1, y = 1\<rparr>, width = 3, height = 4\<rparr>)
     = Some (element_at \<lparr>x = 5, y = 5\<rparr> 7 8)"
    by simp
  from hyp show ?thesis
    using element_change_apply_twice
      [where mem = "[0 \<mapsto> element_at \<lparr>x = 5, y = 5\<rparr> 7 8]"
         and ec = "\<lparr>element = 0, corner = \<lparr>x = 1, y = 1\<rparr>, width = 3, height = 4\<rparr>"
         and e = "element_at \<lparr>x = 5, y = 5\<rparr> 7 8" and obj = None]
    by (intro conjI) simp_all
qed

subsection \<open>\<open>element_load\<close>\<close>

text \<open>
  C9. \<open>element_load\<close> first lets the base layer load the base object, then sets the
  corner, the width and the height: each from the first data of its attribute
  (\<open>elem_corner\<close>, \<open>elem_width\<close>, \<open>elem_height\<close>) when the attribute is found, and
  to the default (\<open>(0, 0)\<close>, 1, 1) when it is not. An attribute that is absent leaves
  the context as it is: nothing is reported for it. \<open>ctx1\<close> is the context after the
  load of the base object, \<open>ctx2\<close>, \<open>ctx3\<close> and \<open>ctx4\<close> the contexts after the
  corner, the width and the height.
\<close>

theorem element_load_attributes:
  assumes "object_load (object elem) obj_node ctx = (ob, ctx1)"
    and "ctx2 = (case find_attribute obj_node ''elem_corner'' of
                   None \<Rightarrow> ctx1
                 | Some a \<Rightarrow> snd (data_point (first_data a) \<lparr>x = 0, y = 0\<rparr> ctx1))"
    and "ctx3 = (case find_attribute obj_node ''elem_width'' of
                   None \<Rightarrow> ctx2
                 | Some a \<Rightarrow> snd (data_real (first_data a) ctx2))"
    and "ctx4 = (case find_attribute obj_node ''elem_height'' of
                   None \<Rightarrow> ctx3
                 | Some a \<Rightarrow> snd (data_real (first_data a) ctx3))"
  shows "element_load object_load find_attribute first_data data_point data_real elem obj_node ctx
    = (elem\<lparr>object := ob,
            Element.corner :=
              (case find_attribute obj_node ''elem_corner'' of
                 None \<Rightarrow> \<lparr>x = 0, y = 0\<rparr>
               | Some a \<Rightarrow> fst (data_point (first_data a) \<lparr>x = 0, y = 0\<rparr> ctx1)),
            Element.width :=
              (case find_attribute obj_node ''elem_width'' of
                 None \<Rightarrow> 1
               | Some a \<Rightarrow> fst (data_real (first_data a) ctx2)),
            Element.height :=
              (case find_attribute obj_node ''elem_height'' of
                 None \<Rightarrow> 1
               | Some a \<Rightarrow> fst (data_real (first_data a) ctx3))\<rparr>,
       ctx4)
    \<and> (find_attribute obj_node ''elem_corner'' = None \<longrightarrow> ctx2 = ctx1)
    \<and> (find_attribute obj_node ''elem_width'' = None \<longrightarrow> ctx3 = ctx2)
    \<and> (find_attribute obj_node ''elem_height'' = None \<longrightarrow> ctx4 = ctx3)
    \<and> (find_attribute obj_node ''elem_corner'' = None \<and>
        find_attribute obj_node ''elem_width'' = None \<and>
        find_attribute obj_node ''elem_height'' = None \<longrightarrow>
          element_load object_load find_attribute first_data data_point data_real elem obj_node ctx
            = (elem\<lparr>object := ob, Element.corner := \<lparr>x = 0, y = 0\<rparr>,
                    Element.width := 1, Element.height := 1\<rparr>, ctx1))"
  using assms
  by (simp add: element_load_def Let_def split: option.splits prod.splits)

theorem element_load_attributes_witness:
  "sample_object_load (object (element_at \<lparr>x = 2, y = 2\<rparr> 5 5))
       [(''elem_width'', Data_real 3)] [] = (object (element_at \<lparr>x = 2, y = 2\<rparr> 5 5), [])
   \<and> element_load sample_object_load sample_find_attribute sample_first_data
         sample_data_point sample_data_real
         (element_at \<lparr>x = 2, y = 2\<rparr> 5 5) [(''elem_width'', Data_real 3)] []
       = ((element_at \<lparr>x = 2, y = 2\<rparr> 5 5)
            \<lparr>Element.corner := \<lparr>x = 0, y = 0\<rparr>, Element.width := 3, Element.height := 1\<rparr>, [])"
proof -
  have h1: "sample_object_load (object (element_at \<lparr>x = 2, y = 2\<rparr> 5 5))
       [(''elem_width'', Data_real 3)] [] = (object (element_at \<lparr>x = 2, y = 2\<rparr> 5 5), [])"
    by (simp add: sample_object_load_def)
  have h2: "[] = (case sample_find_attribute [(''elem_width'', Data_real 3)] ''elem_corner'' of
                   None \<Rightarrow> []
                 | Some a \<Rightarrow> snd (sample_data_point (sample_first_data a) \<lparr>x = 0, y = 0\<rparr> []))"
    by (simp add: sample_find_attribute_def)
  have h3: "[] = (case sample_find_attribute [(''elem_width'', Data_real 3)] ''elem_width'' of
                   None \<Rightarrow> []
                 | Some a \<Rightarrow> snd (sample_data_real (sample_first_data a) []))"
    by (simp add: sample_find_attribute_def sample_first_data_def sample_data_real_def)
  have h4: "[] = (case sample_find_attribute [(''elem_width'', Data_real 3)] ''elem_height'' of
                   None \<Rightarrow> []
                 | Some a \<Rightarrow> snd (sample_data_real (sample_first_data a) []))"
    by (simp add: sample_find_attribute_def)
  show ?thesis
    using h1 element_load_attributes
      [where object_load = sample_object_load and find_attribute = sample_find_attribute
         and first_data = sample_first_data and data_point = sample_data_point
         and data_real = sample_data_real, OF h1 h2 h3 h4]
    by (simp add: sample_find_attribute_def sample_first_data_def sample_data_real_def)
qed

end
